theory Spec2Isabelle
  imports Main "HOL-Library.Word"
begin

section \<open>The actions middleware\<close>

text \<open>
  A shallow embedding of the actions middleware (\<^verbatim>\<open>onRequest\<close> and its handlers
  \<^verbatim>\<open>handlePost\<close>, \<^verbatim>\<open>handleResult\<close>, \<^verbatim>\<open>handlePostLegacy\<close>, the two stub installers, and
  the codec \<^verbatim>\<open>encodeResult\<close> / \<^verbatim>\<open>decodeResult\<close>).

  Conventions of the embedding:
  \<^item> an \<^verbatim>\<open>async\<close> function is modelled by the value its promise settles with: a
    rejection or a \<^verbatim>\<open>throw\<close> is \<open>Inl\<close> of an \<open>error\<close>, a resolution is \<open>Inr\<close>;
  \<^item> what the middleware imports from elsewhere (the Web Crypto API, the hex and base64
    encodings, \<^verbatim>\<open>JSON\<close>, the action registry \<^verbatim>\<open>getAction\<close>, \<^verbatim>\<open>callSafely\<close>,
    \<^verbatim>\<open>hasContentType\<close>, the form-data parser, \<^verbatim>\<open>context.redirect\<close>) is a parameter,
    collected in the records \<open>codec\<close> and \<open>collaborators\<close>;
  \<^item> the effects of the middleware are explicit: the \<^verbatim>\<open>_actionsInternal\<close> slot of
    \<^verbatim>\<open>context.locals\<close> is a field of the state, and every call of a collaborator that
    the claims speak about is appended to a trace;
  \<^item> \<^verbatim>\<open>new Response(body, init)\<close> validates its arguments and throws on the ones it
    refuses; it is the partial constructor \<open>new_Response\<close>;
  \<^item> \<^verbatim>\<open>ApiContextStorage.run(context, f)\<close> makes \<^verbatim>\<open>context\<close> ambient while it runs
    \<^verbatim>\<open>f\<close> and returns what \<^verbatim>\<open>f\<close> returns; it is modelled by running \<^verbatim>\<open>f\<close>.
\<close>

subsection \<open>Errors\<close>

datatype error =
    GetInvocation
      \<comment> \<open>\<^verbatim>\<open>new Error('Actions cannot be invoked with GET requests. ...')\<close>\<close>
  | ActionNotFound string
      \<comment> \<open>\<^verbatim>\<open>new Error(`Action "${actionName}" not found.`)\<close>\<close>
  | InvalidHex
      \<comment> \<open>\<^verbatim>\<open>decodeHex\<close> throws\<close>
  | InvalidBase64
      \<comment> \<open>\<^verbatim>\<open>base64.decode\<close> throws\<close>
  | OperationError
      \<comment> \<open>\<^verbatim>\<open>crypto.subtle.decrypt\<close> rejects: the authentication tag does not verify\<close>
  | SyntaxError
      \<comment> \<open>\<^verbatim>\<open>JSON.parse\<close> throws\<close>
  | TypeError
      \<comment> \<open>a write to a non-writable, non-configurable property; \<^verbatim>\<open>new Response\<close> given
        an invalid status text, or a body together with a null-body status\<close>
  | RangeError
      \<comment> \<open>\<^verbatim>\<open>new Response\<close> given a status outside 200..599\<close>
  | Thrown string
      \<comment> \<open>a rejection of the downstream continuation or of the form-data parser\<close>

subsection \<open>The result codec\<close>

type_synonym byte = "8 word"
type_synonym bytes = "byte list"

text \<open>
  The platform and library functions the codec calls. \<open>'k\<close> is the type of the key
  (\<^verbatim>\<open>actionKey\<close>), \<open>'t\<close> the type of JSON texts, \<open>'r\<close> the type of the JSON-serializable
  results. The envelope itself is a \<open>string\<close>.
\<close>

record ('k, 't, 'r) codec =
  actionKey :: 'k
  encodeHex :: "bytes \<Rightarrow> string"
  decodeHex :: "string \<Rightarrow> bytes option"
  base64_encode :: "bytes \<Rightarrow> string"
  base64_decode :: "string \<Rightarrow> bytes option"
  encrypt :: "'k \<Rightarrow> bytes \<Rightarrow> bytes \<Rightarrow> bytes"
    \<comment> \<open>\<^verbatim>\<open>crypto.subtle.encrypt({name: 'AES-GCM', iv}, key, data)\<close>, as \<open>encrypt key iv data\<close>\<close>
  decrypt :: "'k \<Rightarrow> bytes \<Rightarrow> bytes \<Rightarrow> bytes option"
    \<comment> \<open>\<^verbatim>\<open>crypto.subtle.decrypt({name: 'AES-GCM', iv}, key, data)\<close>\<close>
  encoder_encode :: "'t \<Rightarrow> bytes"
  decoder_decode :: "bytes \<Rightarrow> 't"
  JSON_stringify :: "'r \<Rightarrow> 't"
  JSON_parse :: "'t \<Rightarrow> 'r option"

text \<open>
  \<^verbatim>\<open>encodeResult\<close>. The nonce \<^verbatim>\<open>crypto.getRandomValues(new Uint8Array(12))\<close> is the
  argument \<open>iv\<close>: twelve bytes chosen by the platform.
\<close>

definition encodeResult :: "('k, 't, 'r) codec \<Rightarrow> bytes \<Rightarrow> 'r \<Rightarrow> string" where
  "encodeResult c iv result =
     (let data = encoder_encode c (JSON_stringify c result);
          encryptedBuffer = encrypt c (actionKey c) iv data;
          encryptedString = base64_encode c encryptedBuffer
      in encodeHex c iv @ encryptedString)"

text \<open>\<^verbatim>\<open>decodeResult\<close>. \<^verbatim>\<open>s.slice(0, 24)\<close> is \<open>take 24 s\<close>, \<^verbatim>\<open>s.slice(24)\<close> is \<open>drop 24 s\<close>.\<close>

definition decodeResult :: "('k, 't, 'r) codec \<Rightarrow> string \<Rightarrow> error + 'r" where
  "decodeResult c encodedResult =
     (case decodeHex c (take 24 encodedResult) of
        None \<Rightarrow> Inl InvalidHex
      | Some iv \<Rightarrow>
          (case base64_decode c (drop 24 encodedResult) of
             None \<Rightarrow> Inl InvalidBase64
           | Some dataArray \<Rightarrow>
               (case decrypt c (actionKey c) iv dataArray of
                  None \<Rightarrow> Inl OperationError
                | Some decryptedBuffer \<Rightarrow>
                    (case JSON_parse c (decoder_decode c decryptedBuffer) of
                       None \<Rightarrow> Inl SyntaxError
                     | Some r \<Rightarrow> Inr r))))"

text \<open>
  What the codec relies on from its libraries: hex writes two characters per byte and
  both encodings are read back by their decoders; AES-GCM decryption under the same key
  and nonce returns the plaintext; the UTF-8 decoder reads back what the encoder wrote;
  \<^verbatim>\<open>JSON.parse\<close> reads back what \<^verbatim>\<open>JSON.stringify\<close> wrote.
\<close>

definition codec_contract :: "('k, 't, 'r) codec \<Rightarrow> bool" where
  "codec_contract c \<longleftrightarrow>
     (\<forall>bs. length (encodeHex c bs) = 2 * length bs) \<and>
     (\<forall>bs. decodeHex c (encodeHex c bs) = Some bs) \<and>
     (\<forall>bs. base64_decode c (base64_encode c bs) = Some bs) \<and>
     (\<forall>k iv d. decrypt c k iv (encrypt c k iv d) = Some d) \<and>
     (\<forall>t. decoder_decode c (encoder_encode c t) = t) \<and>
     (\<forall>r. JSON_parse c (JSON_stringify c r) = Some r)"

subsection \<open>A reference instance of the codec libraries\<close>

text \<open>
  An instance of the parameters on which the definitions can be run. Hex is lower-case
  hex; base64 is replaced by the byte-to-character bijection, encryption by a keyed XOR
  followed by the nonce as tag; the two JSON functions are arguments.
\<close>

definition hexDigit :: "nat \<Rightarrow> char" where
  "hexDigit n = ''0123456789abcdef'' ! n"

definition hexValue :: "char \<Rightarrow> nat option" where
  "hexValue ch = map_of (zip ''0123456789abcdef'' [0..<16]) ch"

fun hex_encode :: "bytes \<Rightarrow> string" where
  "hex_encode [] = []"
| "hex_encode (b # bs) = hexDigit (unat b div 16) # hexDigit (unat b mod 16) # hex_encode bs"

fun hex_decode :: "string \<Rightarrow> bytes option" where
  "hex_decode [] = Some []"
| "hex_decode [x] = None"
| "hex_decode (x # y # rest) =
     (case (hexValue x, hexValue y, hex_decode rest) of
        (Some h, Some l, Some bs) \<Rightarrow> Some (word_of_nat (16 * h + l) # bs)
      | _ \<Rightarrow> None)"

definition byte_char :: "byte \<Rightarrow> char" where
  "byte_char b = char_of (unat b)"

definition char_byte :: "char \<Rightarrow> byte" where
  "char_byte ch = word_of_nat (of_char ch)"

definition xor_encrypt :: "byte \<Rightarrow> bytes \<Rightarrow> bytes \<Rightarrow> bytes" where
  "xor_encrypt k iv d = map (\<lambda>b. xor b k) d @ iv"

definition xor_decrypt :: "byte \<Rightarrow> bytes \<Rightarrow> bytes \<Rightarrow> bytes option" where
  "xor_decrypt k iv e =
     (if length iv \<le> length e \<and> drop (length e - length iv) e = iv
      then Some (map (\<lambda>b. xor b k) (take (length e - length iv) e))
      else None)"

definition demo_codec ::
  "('r \<Rightarrow> string) \<Rightarrow> (string \<Rightarrow> 'r option) \<Rightarrow> (byte, string, 'r) codec"
where
  "demo_codec stringify parse =
     \<lparr> actionKey = 0x5a,
       encodeHex = hex_encode,
       decodeHex = hex_decode,
       base64_encode = map byte_char,
       base64_decode = (\<lambda>s. Some (map char_byte s)),
       encrypt = xor_encrypt,
       decrypt = xor_decrypt,
       encoder_encode = map char_byte,
       decoder_decode = map byte_char,
       JSON_stringify = stringify,
       JSON_parse = parse \<rparr>"

section \<open>The dispatcher\<close>

subsection \<open>Requests, URLs, responses\<close>

type_synonym search_params = "(string \<times> string) list"
type_synonym form_data = "(string \<times> string) list"

text \<open>
  \<^verbatim>\<open>URLSearchParams.get(name)\<close> is the value of the first pair called \<open>name\<close>, or
  \<^verbatim>\<open>null\<close>; \<^verbatim>\<open>FormData.get(name)\<close> likewise.
\<close>

definition searchParams_get :: "search_params \<Rightarrow> string \<Rightarrow> string option" where
  "searchParams_get ps name = map_of ps name"

definition formData_get :: "form_data \<Rightarrow> string \<Rightarrow> string option" where
  "formData_get fd name = map_of fd name"

text \<open>
  \<^verbatim>\<open>URLSearchParams.set(name, value)\<close>: the first pair called \<open>name\<close> takes the value and
  the other pairs of that name are removed; with no such pair, a new one is appended.
\<close>

fun searchParams_set :: "search_params \<Rightarrow> string \<Rightarrow> string \<Rightarrow> search_params" where
  "searchParams_set [] name v = [(name, v)]"
| "searchParams_set ((k, x) # ps) name v =
     (if k = name then (name, v) # filter (\<lambda>p. fst p \<noteq> name) ps
      else (k, x) # searchParams_set ps name v)"

text \<open>
  A JavaScript condition on a string that may be \<^verbatim>\<open>null\<close>: \<^verbatim>\<open>null\<close> and the empty
  string are falsy, every other string is truthy.
\<close>

definition truthy :: "string option \<Rightarrow> bool" where
  "truthy v = (case v of None \<Rightarrow> False | Some x \<Rightarrow> x \<noteq> [])"

record url =
  origin :: string
  pathname :: string
  searchParams :: search_params
  hash :: string

record 'b request =
  request_method :: string
    \<comment> \<open>\<^verbatim>\<open>request.method\<close>\<close>
  body :: "'b option"
    \<comment> \<open>\<^verbatim>\<open>request.body\<close>; \<open>None\<close> is \<^verbatim>\<open>null\<close>\<close>
  content_type :: "string option"
    \<comment> \<open>\<^verbatim>\<open>request.headers.get('content-type')\<close>\<close>

record 'b api_context =
  request :: "'b request"
  url :: url

record 'rb response =
  status :: nat
  statusText :: string
  headers :: "(string \<times> string) list"
  response_body :: "'rb option"
    \<comment> \<open>\<^verbatim>\<open>response.body\<close>; \<open>None\<close> is \<^verbatim>\<open>null\<close>\<close>

text \<open>
  \<^verbatim>\<open>new Response(body, {status, statusText, headers})\<close>, in the order of its checks:
  a status outside 200..599 throws a \<^verbatim>\<open>RangeError\<close>; a status text that is not a
  reason phrase (horizontal tab, space, the visible ASCII characters and the bytes from
  \<open>0x80\<close>) throws a \<^verbatim>\<open>TypeError\<close>; a body that is not \<^verbatim>\<open>null\<close> with a null-body
  status (101, 103, 204, 205, 304) throws a \<^verbatim>\<open>TypeError\<close>.
\<close>

definition reason_phrase :: "string \<Rightarrow> bool" where
  "reason_phrase t =
     list_all (\<lambda>ch. (of_char ch :: nat) = 9 \<or> (32 \<le> (of_char ch :: nat) \<and> (of_char ch :: nat) \<noteq> 127)) t"

definition null_body_status :: "nat \<Rightarrow> bool" where
  "null_body_status st \<longleftrightarrow> List.member [101, 103, 204, 205, 304] st"

definition new_Response ::
  "'rb option \<Rightarrow> nat \<Rightarrow> string \<Rightarrow> (string \<times> string) list \<Rightarrow> error + 'rb response"
where
  "new_Response b st txt hs =
     (if st < 200 \<or> 599 < st then Inl RangeError
      else if \<not> reason_phrase txt then Inl TypeError
      else if b \<noteq> None \<and> null_body_status st then Inl TypeError
      else Inr \<lparr>status = st, statusText = txt, headers = hs, response_body = b\<rparr>)"

subsection \<open>Action results\<close>

text \<open>
  An action result is the object \<^verbatim>\<open>{data, error}\<close>; of the error the middleware reads
  \<^verbatim>\<open>error.status\<close> and \<^verbatim>\<open>error.type\<close>. An error object is truthy, so
  \<^verbatim>\<open>if (actionResult.error)\<close> is \<open>error actionResult \<noteq> None\<close>.
\<close>

record action_error =
  error_status :: nat
  error_type :: string

record 'd action_result =
  data :: "'d option"
  error :: "action_error option"

subsection \<open>The request-scoped context\<close>

text \<open>
  The three objects the middleware stores under \<^verbatim>\<open>_actionsInternal\<close>. Each holds a
  closure \<^verbatim>\<open>getActionResult\<close>; the closures are told apart by the constructor, and
  \<open>ResultContext\<close> carries what the closure of \<^verbatim>\<open>handleResult\<close> captures
  (\<^verbatim>\<open>actionName\<close> and \<^verbatim>\<open>actionResult\<close>).
\<close>

datatype 'd actions_internal =
    ResultContext string "'d action_result"
  | StaticStub
  | LocalsStub

text \<open>The \<^verbatim>\<open>actionResult\<close> field of the stored object; only \<^verbatim>\<open>handleResult\<close> sets it.\<close>

fun actionResult :: "'d actions_internal \<Rightarrow> 'd action_result option" where
  "actionResult (ResultContext actionName r) = Some r"
| "actionResult StaticStub = None"
| "actionResult LocalsStub = None"

text \<open>
  What a call returns: a plain value, or a promise already resolved with a value
  (\<^verbatim>\<open>Promise.resolve(v)\<close>). The two are different values to the caller: a promise
  is an object, and truthy, whatever it resolves with.
\<close>

datatype 'a returned = Plain 'a | Resolved 'a

text \<open>
  \<^verbatim>\<open>getActionResult(actionFn)\<close> of a stored object. Of \<^verbatim>\<open>actionFn\<close> only
  \<^verbatim>\<open>actionFn.toString()\<close> is used, so the argument is that string; \<open>qs\<close> is
  \<^verbatim>\<open>getActionQueryString\<close>. The result is what the call returns (\<open>None\<close> is
  \<^verbatim>\<open>undefined\<close>) and whether \<^verbatim>\<open>console.warn\<close> was called.
\<close>

fun getActionResult ::
  "(string \<Rightarrow> string) \<Rightarrow> 'd actions_internal \<Rightarrow> string \<Rightarrow> 'd action_result option returned \<times> bool"
where
  "getActionResult qs (ResultContext actionName r) actionFn_toString =
     (if actionFn_toString \<noteq> qs actionName then (Resolved None, False)
      else (Plain (Some r), False))"
| "getActionResult qs StaticStub actionFn_toString = (Plain None, True)"
| "getActionResult qs LocalsStub actionFn_toString = (Plain None, False)"

subsection \<open>The property \<^verbatim>\<open>locals._actionsInternal\<close>\<close>

text \<open>
  The slot of \<^verbatim>\<open>context.locals\<close> is \<open>None\<close> while the property does not exist. A
  property has a value and the attributes \<^verbatim>\<open>writable\<close> and \<^verbatim>\<open>configurable\<close>.
\<close>

record 'd property =
  property_value :: "'d actions_internal"
  writable :: bool
  configurable :: bool

type_synonym 'd locals = "'d property option"

text \<open>The property a descriptor \<^verbatim>\<open>{writable: false, value: v}\<close> creates.\<close>

definition frozen :: "'d actions_internal \<Rightarrow> 'd property" where
  "frozen v = \<lparr>property_value = v, writable = False, configurable = False\<rparr>"

text \<open>
  \<^verbatim>\<open>Object.defineProperty(locals, '_actionsInternal', {writable: w, value: v})\<close> where
  \<open>v\<close> is a fresh object. A new property gets \<^verbatim>\<open>configurable: false\<close>, the default. An
  existing property that is configurable, or writable, is updated; on one that is
  neither, the call throws a \<^verbatim>\<open>TypeError\<close> (a fresh object is never the value already
  there).
\<close>

definition defineProperty :: "'d locals \<Rightarrow> bool \<Rightarrow> 'd actions_internal \<Rightarrow> error + 'd locals" where
  "defineProperty l w v =
     (case l of
        None \<Rightarrow> Inr (Some \<lparr>property_value = v, writable = w, configurable = False\<rparr>)
      | Some p \<Rightarrow>
          if configurable p \<or> writable p
          then Inr (Some \<lparr>property_value = v, writable = w, configurable = configurable p\<rparr>)
          else Inl TypeError)"

text \<open>
  The assignment \<^verbatim>\<open>locals._actionsInternal = v\<close> in strict code (a module): it creates
  the property, or replaces the value of a writable one, and throws a \<^verbatim>\<open>TypeError\<close> on
  a non-writable one. The middleware makes no such assignment; the definition states
  what a later write attempt does.
\<close>

definition assign :: "'d locals \<Rightarrow> 'd actions_internal \<Rightarrow> error + 'd locals" where
  "assign l v =
     (case l of
        None \<Rightarrow> Inr (Some \<lparr>property_value = v, writable = True, configurable = True\<rparr>)
      | Some p \<Rightarrow>
          if writable p then Inr (Some (p\<lparr>property_value := v\<rparr>)) else Inl TypeError)"

subsection \<open>State and trace\<close>

datatype 'd event =
    GetAction string
      \<comment> \<open>\<^verbatim>\<open>getAction(actionName)\<close> was called\<close>
  | CallAction string "form_data option"
      \<comment> \<open>\<^verbatim>\<open>callSafely(() => action(formData))\<close> ran the action registered under the name\<close>
  | DefineProperty "'d actions_internal"
      \<comment> \<open>\<^verbatim>\<open>Object.defineProperty\<close> stored the object under \<^verbatim>\<open>_actionsInternal\<close>\<close>
  | Next
      \<comment> \<open>\<^verbatim>\<open>next()\<close> was called\<close>
  | ConsoleLog url
      \<comment> \<open>\<^verbatim>\<open>console.log('$$$redirect', redirectUrl.href)\<close>\<close>

record 'd state =
  locals :: "'d locals"
  trace :: "'d event list"

definition emit :: "'d event \<Rightarrow> 'd state \<Rightarrow> 'd state" where
  "emit ev s = s\<lparr>trace := trace s @ [ev]\<rparr>"

text \<open>The objects a trace stores under \<^verbatim>\<open>_actionsInternal\<close>, in order.\<close>

fun installs :: "'d event list \<Rightarrow> 'd actions_internal list" where
  "installs [] = []"
| "installs (DefineProperty v # evs) = v # installs evs"
| "installs (ev # evs) = installs evs"

text \<open>The object stored under \<^verbatim>\<open>_actionsInternal\<close>, if the property exists.\<close>

definition stored :: "'d state \<Rightarrow> 'd actions_internal option" where
  "stored s = map_option property_value (locals s)"

subsection \<open>Collaborators\<close>

text \<open>
  An action takes the parsed form data, or \<^verbatim>\<open>undefined\<close>, and resolves with data or
  rejects. \<^verbatim>\<open>callSafely\<close> turns either outcome into an action result and never
  rejects. \<open>parse_formData\<close> is \<^verbatim>\<open>request.clone().formData()\<close>, which rejects on a body
  that does not parse. \<^verbatim>\<open>redirect u\<close> is \<^verbatim>\<open>context.redirect(u.href)\<close>.
\<close>

type_synonym 'd action = "form_data option \<Rightarrow> string + 'd"

record ('b, 'd, 'rb) collaborators =
  getAction :: "string \<Rightarrow> 'd action option"
  callSafely :: "string + 'd \<Rightarrow> 'd action_result"
  hasContentType :: "string \<Rightarrow> string list \<Rightarrow> bool"
  formContentTypes :: "string list"
  parse_formData :: "'b request \<Rightarrow> string + form_data"
  getActionQueryString :: "string \<Rightarrow> string"
  redirect :: "url \<Rightarrow> 'rb response"

text \<open>The downstream continuation sees the locals and resolves with a response or rejects.\<close>

type_synonym ('d, 'rb) middleware_next = "'d locals \<Rightarrow> string + 'rb response"

type_synonym ('d, 'rb) outcome = "(error + 'rb response) \<times> 'd state"

subsection \<open>The handlers\<close>

text \<open>
  \<^verbatim>\<open>await next()\<close>: the continuation is given the locals as they are at the call; its
  rejection propagates as a thrown error.
\<close>

definition await_next :: "('d, 'rb) middleware_next \<Rightarrow> 'd locals \<Rightarrow> error + 'rb response" where
  "await_next next l =
     (case next l of Inl x \<Rightarrow> Inl (Thrown x) | Inr response \<Rightarrow> Inr response)"

text \<open>\<^verbatim>\<open>ApiContextStorage.run(context, () => next())\<close>.\<close>

definition run_next :: "('d, 'rb) middleware_next \<Rightarrow> 'd state \<Rightarrow> ('d, 'rb) outcome" where
  "run_next next s = (await_next next (locals s), emit Next s)"

definition nextWithStaticStub :: "('d, 'rb) middleware_next \<Rightarrow> 'd state \<Rightarrow> ('d, 'rb) outcome" where
  "nextWithStaticStub next s =
     (case defineProperty (locals s) False StaticStub of
        Inl err \<Rightarrow> (Inl err, s)
      | Inr l \<Rightarrow> run_next next (emit (DefineProperty StaticStub) (s\<lparr>locals := l\<rparr>)))"

definition nextWithLocalsStub :: "('d, 'rb) middleware_next \<Rightarrow> 'd state \<Rightarrow> ('d, 'rb) outcome" where
  "nextWithLocalsStub next s =
     (case defineProperty (locals s) False LocalsStub of
        Inl err \<Rightarrow> (Inl err, s)
      | Inr l \<Rightarrow> run_next next (emit (DefineProperty LocalsStub) (s\<lparr>locals := l\<rparr>)))"

definition handleResult ::
  "('d, 'rb) middleware_next \<Rightarrow> string \<Rightarrow> 'd action_result \<Rightarrow> 'd state \<Rightarrow> ('d, 'rb) outcome"
where
  "handleResult next actionName r s =
     (case defineProperty (locals s) False (ResultContext actionName r) of
        Inl err \<Rightarrow> (Inl err, s)
      | Inr l \<Rightarrow>
          (let s1 = emit (DefineProperty (ResultContext actionName r)) (s\<lparr>locals := l\<rparr>)
           in case await_next next (locals s1) of
                Inl err \<Rightarrow> (Inl err, emit Next s1)
              | Inr response \<Rightarrow>
                  (case error r of
                     Some err \<Rightarrow>
                       (new_Response (response_body response) (error_status err)
                          (error_type err) (headers response),
                        emit Next s1)
                   | None \<Rightarrow> (Inr response, emit Next s1))))"

text \<open>
  The test both POST handlers make before they parse the body:
  \<^verbatim>\<open>contentType && hasContentType(contentType, formContentTypes)\<close>.
\<close>

definition form_like :: "('b, 'd, 'rb) collaborators \<Rightarrow> 'b request \<Rightarrow> bool" where
  "form_like e req \<longleftrightarrow>
     truthy (content_type req) \<and> hasContentType e (the (content_type req)) (formContentTypes e)"

text \<open>
  The variable \<^verbatim>\<open>formData\<close> of both POST handlers: the parsed body when the request
  is form-like, \<^verbatim>\<open>undefined\<close> otherwise. A body that does not parse rejects.
\<close>

definition read_formData ::
  "('b, 'd, 'rb) collaborators \<Rightarrow> 'b request \<Rightarrow> string + form_data option"
where
  "read_formData e req =
     (if form_like e req
      then (case parse_formData e req of Inl x \<Rightarrow> Inl x | Inr fd \<Rightarrow> Inr (Some fd))
      else Inr None)"

definition handlePost ::
  "('k, 't, 'd action_result) codec \<Rightarrow> ('b, 'd, 'rb) collaborators \<Rightarrow> bytes \<Rightarrow> 'b api_context \<Rightarrow>
   ('d, 'rb) middleware_next \<Rightarrow> string \<Rightarrow> 'd state \<Rightarrow> ('d, 'rb) outcome"
where
  "handlePost c e iv ctx next actionName s =
     (if body (request ctx) = None then nextWithStaticStub next s
      else
        (let s1 = emit (GetAction actionName) s
         in case getAction e actionName of
              None \<Rightarrow> (Inl (ActionNotFound actionName), s1)
            | Some action \<Rightarrow>
                (case read_formData e (request ctx) of
                   Inl x \<Rightarrow> (Inl (Thrown x), s1)
                 | Inr formData \<Rightarrow>
                     (let result = callSafely e (action formData);
                          s2 = emit (CallAction actionName formData) s1;
                          redirectUrl = (url ctx)\<lparr>searchParams :=
                            searchParams_set (searchParams (url ctx)) ''__result''
                              (encodeResult c iv result)\<rparr>
                      in (Inr (redirect e redirectUrl), emit (ConsoleLog redirectUrl) s2)))))"

definition handlePostLegacy ::
  "('b, 'd, 'rb) collaborators \<Rightarrow> 'b api_context \<Rightarrow> ('d, 'rb) middleware_next \<Rightarrow> 'd state \<Rightarrow>
   ('d, 'rb) outcome"
where
  "handlePostLegacy e ctx next s =
     (if body (request ctx) = None then nextWithStaticStub next s
      else
        (case read_formData e (request ctx) of
           Inl x \<Rightarrow> (Inl (Thrown x), s)
         | Inr None \<Rightarrow> nextWithLocalsStub next s
         | Inr (Some formData) \<Rightarrow>
             (let actionName = formData_get formData ''__action''
              in if \<not> truthy actionName then nextWithLocalsStub next s
                 else
                   (let s1 = emit (GetAction (the actionName)) s
                    in case getAction e (the actionName) of
                         None \<Rightarrow> (Inl (ActionNotFound (the actionName)), s1)
                       | Some action \<Rightarrow>
                           (let r = callSafely e (action (Some formData));
                                s2 = emit (CallAction (the actionName) (Some formData)) s1
                            in handleResult next (the actionName) r s2)))))"

subsection \<open>\<^verbatim>\<open>onRequest\<close>\<close>

text \<open>
  The stored object is truthy, so \<^verbatim>\<open>if (locals._actionsInternal)\<close> is
  \<open>locals s \<noteq> None\<close>. \<open>iv\<close> is the nonce the platform draws if a result is encoded.
\<close>

definition onRequest ::
  "('k, 't, 'd action_result) codec \<Rightarrow> ('b, 'd, 'rb) collaborators \<Rightarrow> bytes \<Rightarrow> 'b api_context \<Rightarrow>
   ('d, 'rb) middleware_next \<Rightarrow> 'd state \<Rightarrow> ('d, 'rb) outcome"
where
  "onRequest c e iv ctx next s =
     (if locals s \<noteq> None then run_next next s
      else
        (let actionName = searchParams_get (searchParams (url ctx)) ''__action'';
             encodedActionResult = searchParams_get (searchParams (url ctx)) ''__result''
         in if request_method (request ctx) = ''GET'' \<and> truthy actionName \<and> truthy encodedActionResult
            then (case decodeResult c (the encodedActionResult) of
                    Inl err \<Rightarrow> (Inl err, s)
                  | Inr r \<Rightarrow> handleResult next (the actionName) r s)
            else if request_method (request ctx) = ''POST'' \<and> truthy actionName
            then handlePost c e iv ctx next (the actionName) s
            else if request_method (request ctx) = ''GET'' \<and> truthy actionName
            then (Inl GetInvocation, s)
            else if request_method (request ctx) = ''POST''
            then handlePostLegacy e ctx next s
            else nextWithLocalsStub next s))"

section \<open>An example deployment\<close>

text \<open>
  Concrete collaborators, requests and a continuation, on which the middleware can be
  run. The texts of action results are written field by field, a string as its length
  in unary followed by its characters.
\<close>

definition unary :: "nat \<Rightarrow> string" where
  "unary n = replicate n (CHR ''1'') @ ''0''"

fun read_unary :: "string \<Rightarrow> (nat \<times> string) option" where
  "read_unary [] = None"
| "read_unary (ch # rest) =
     (if ch = CHR ''0'' then Some (0, rest)
      else if ch = CHR ''1'' then
        (case read_unary rest of None \<Rightarrow> None | Some (n, rest') \<Rightarrow> Some (Suc n, rest'))
      else None)"

definition field :: "string \<Rightarrow> string" where
  "field x = unary (length x) @ x"

definition read_field :: "string \<Rightarrow> (string \<times> string) option" where
  "read_field t =
     (case read_unary t of
        None \<Rightarrow> None
      | Some (n, rest) \<Rightarrow> if n \<le> length rest then Some (take n rest, drop n rest) else None)"

definition result_text :: "string action_result \<Rightarrow> string" where
  "result_text r =
     (case data r of None \<Rightarrow> ''-'' | Some d \<Rightarrow> ''+'' @ field d) @
     (case error r of
        None \<Rightarrow> ''-''
      | Some err \<Rightarrow> ''+'' @ unary (error_status err) @ field (error_type err))"

definition read_data :: "string \<Rightarrow> (string option \<times> string) option" where
  "read_data t =
     (case t of
        [] \<Rightarrow> None
      | ch # rest \<Rightarrow>
          if ch = CHR ''-'' then Some (None, rest)
          else if ch = CHR ''+'' then
            (case read_field rest of None \<Rightarrow> None | Some (d, rest') \<Rightarrow> Some (Some d, rest'))
          else None)"

definition read_error :: "string \<Rightarrow> action_error option option" where
  "read_error t =
     (case t of
        [] \<Rightarrow> None
      | ch # rest \<Rightarrow>
          if ch = CHR ''-'' then (if rest = [] then Some None else None)
          else if ch = CHR ''+'' then
            (case read_unary rest of
               None \<Rightarrow> None
             | Some (n, rest') \<Rightarrow>
                 (case read_field rest' of
                    None \<Rightarrow> None
                  | Some (ty, rest'') \<Rightarrow>
                      if rest'' = [] then Some (Some \<lparr>error_status = n, error_type = ty\<rparr>)
                      else None))
          else None)"

definition read_result :: "string \<Rightarrow> string action_result option" where
  "read_result t =
     (case read_data t of
        None \<Rightarrow> None
      | Some (d, rest) \<Rightarrow>
          (case read_error rest of
             None \<Rightarrow> None
           | Some err \<Rightarrow> Some \<lparr>data = d, error = err\<rparr>))"

definition result_codec :: "(byte, string, string action_result) codec" where
  "result_codec = demo_codec result_text read_result"

definition demo_nonce :: bytes where
  "demo_nonce = [1, 2, 3, 4, 5, 6, 7, 8, 9, 10, 11, 12]"

text \<open>
  The registry knows \<open>increment\<close>, which resolves, and \<open>fail\<close>, which rejects. A request
  body is either form fields or a text that does not parse as a form.
\<close>

fun query_string :: "search_params \<Rightarrow> string" where
  "query_string [] = []"
| "query_string [(k, v)] = k @ ''='' @ v"
| "query_string ((k, v) # p # ps) = k @ ''='' @ v @ ''&'' @ query_string (p # ps)"

definition demo_href :: "url \<Rightarrow> string" where
  "demo_href u = origin u @ pathname u @ ''?'' @ query_string (searchParams u) @ hash u"

definition demo_collaborators :: "(string + form_data, string, string) collaborators" where
  "demo_collaborators =
     \<lparr> getAction =
         (\<lambda>name. if name = ''increment'' then Some (\<lambda>fd. Inr ''1'')
                 else if name = ''fail'' then Some (\<lambda>fd. Inl ''boom'')
                 else None),
       callSafely =
         (\<lambda>settled. case settled of
            Inr d \<Rightarrow> \<lparr>data = Some d, error = None\<rparr>
          | Inl message \<Rightarrow>
              \<lparr>data = None,
               error = Some \<lparr>error_status = 500, error_type = ''AstroActionError''\<rparr>\<rparr>),
       hasContentType = (\<lambda>contentType expected. contentType \<in> set expected),
       formContentTypes = [''application/x-www-form-urlencoded'', ''multipart/form-data''],
       parse_formData =
         (\<lambda>req. case body req of None \<Rightarrow> Inl ''TypeError'' | Some b \<Rightarrow> b),
       getActionQueryString = (\<lambda>name. ''?__action='' @ name),
       redirect =
         (\<lambda>u. \<lparr>status = 302, statusText = [], headers = [(''Location'', demo_href u)],
               response_body = None\<rparr>) \<rparr>"

text \<open>A registry that resolves every name, the empty one too.\<close>

definition permissive_collaborators :: "(string + form_data, string, string) collaborators" where
  "permissive_collaborators = demo_collaborators\<lparr>getAction := (\<lambda>name. Some (\<lambda>fd. Inr ''1''))\<rparr>"

text \<open>The page answers 200 and writes which stored object it found.\<close>

definition demo_page :: "string \<Rightarrow> string response" where
  "demo_page found =
     \<lparr>status = 200, statusText = ''OK'', headers = [(''content-type'', ''text/html'')],
      response_body = Some found\<rparr>"

definition demo_next :: "(string, string) middleware_next" where
  "demo_next l =
     Inr (demo_page
       (case l of
          None \<Rightarrow> ''no context''
        | Some p \<Rightarrow>
            (case property_value p of
               ResultContext actionName r \<Rightarrow> ''result of '' @ actionName
             | StaticStub \<Rightarrow> ''static stub''
             | LocalsStub \<Rightarrow> ''locals stub'')))"

definition demo_url :: "search_params \<Rightarrow> url" where
  "demo_url ps = \<lparr>origin = ''http://localhost'', pathname = ''/page'', searchParams = ps, hash = []\<rparr>"

definition demo_context ::
  "string \<Rightarrow> search_params \<Rightarrow> (string + form_data) option \<Rightarrow> string option \<Rightarrow>
   (string + form_data) api_context"
where
  "demo_context m ps b ct =
     \<lparr>request = \<lparr>request_method = m, body = b, content_type = ct\<rparr>, url = demo_url ps\<rparr>"

definition ok_result :: "string action_result" where
  "ok_result = \<lparr>data = Some ''1'', error = None\<rparr>"

definition failed_result :: "string action_result" where
  "failed_result =
     \<lparr>data = None, error = Some \<lparr>error_status = 500, error_type = ''AstroActionError''\<rparr>\<rparr>"

definition demo_envelope :: string where
  "demo_envelope = encodeResult result_codec demo_nonce ok_result"

definition fresh :: "string state" where
  "fresh = \<lparr>locals = None, trace = []\<rparr>"

text \<open>The state a first run on an ordinary page leaves behind: the locals stub is stored.\<close>

definition entered :: "string state" where
  "entered = \<lparr>locals = Some (frozen LocalsStub), trace = []\<rparr>"

section \<open>Properties of the codec\<close>

lemma hexValue_hexDigit: "n < 16 \<Longrightarrow> hexValue (hexDigit n) = Some n"
proof -
  assume "n < 16"
  then have "n \<in> set [0..<16]" by simp
  then have "n \<in> {0,1,2,3,4,5,6,7,8,9,10,11,12,13,14,15}"
    by (simp add: upt_rec numeral_eq_Suc)
  then show ?thesis
    by (auto simp: hexValue_def hexDigit_def upt_rec numeral_eq_Suc)
qed

lemma hex_encode_length: "length (hex_encode bs) = 2 * length bs"
  by (induction bs) simp_all

lemma byte_nibbles: "word_of_nat (16 * (unat b div 16) + unat b mod 16) = (b::byte)"
  by simp

lemma unat_byte_div16: "unat (b::byte) div 16 < 16"
proof -
  have "unat b < 256" using unsigned_less [of b, where ?'a = nat] by simp
  then show ?thesis by simp
qed

lemma hex_decode_encode: "hex_decode (hex_encode bs) = Some bs"
  by (induction bs) (simp_all add: hexValue_hexDigit unat_byte_div16 byte_nibbles)

lemma char_byte_char: "char_byte (byte_char b) = b"
proof -
  have "unat b < 256" using unsigned_less [of b, where ?'a = nat] by simp
  then show ?thesis by (simp add: char_byte_def byte_char_def)
qed

lemma byte_char_byte: "byte_char (char_byte ch) = ch"
proof -
  have "(of_char ch :: nat) < 256" by simp
  then have "unat (word_of_nat (of_char ch) :: byte) = of_char ch"
    by (simp add: unat_of_nat take_bit_nat_eq_self)
  then show ?thesis by (simp add: char_byte_def byte_char_def)
qed

lemma xor_decrypt_encrypt: "xor_decrypt k iv (xor_encrypt k iv d) = Some d"
  by (simp add: xor_decrypt_def xor_encrypt_def comp_def xor.assoc)

lemma demo_codec_contract:
  "\<forall>r. parse (stringify r) = Some r \<Longrightarrow> codec_contract (demo_codec stringify parse)"
  by (simp add: codec_contract_def demo_codec_def hex_encode_length hex_decode_encode
      xor_decrypt_encrypt comp_def char_byte_char byte_char_byte)

lemma read_unary_unary: "read_unary (unary n @ rest) = Some (n, rest)"
  by (induction n) (simp_all add: unary_def)

lemma read_field_field: "read_field (field x @ rest) = Some (x, rest)"
  by (simp add: read_field_def field_def read_unary_unary)

lemma read_result_text: "read_result (result_text r) = Some r"
  by (cases r) (simp add: read_result_def result_text_def read_data_def read_error_def
      read_field_field read_unary_unary read_field_field [of _ "[]", simplified]
      split: option.splits)

lemma result_codec_contract: "codec_contract result_codec"
  unfolding result_codec_def by (rule demo_codec_contract) (simp add: read_result_text)

lemma demo_nonce_length: "length demo_nonce = 12"
  by (simp add: demo_nonce_def)

text \<open>
  The layout of the envelope: the first 24 characters are the hex of the twelve-byte
  nonce, the rest is the base64 of the ciphertext.
\<close>

lemma encodeResult_take:
  assumes "codec_contract c" and "length iv = 12"
  shows "take 24 (encodeResult c iv r) = encodeHex c iv"
proof -
  from assms have "length (encodeHex c iv) = 24"
    by (simp add: codec_contract_def)
  then show ?thesis by (simp add: encodeResult_def Let_def)
qed

lemma encodeResult_drop:
  assumes "codec_contract c" and "length iv = 12"
  shows "drop 24 (encodeResult c iv r) =
    base64_encode c (encrypt c (actionKey c) iv (encoder_encode c (JSON_stringify c r)))"
proof -
  from assms have "length (encodeHex c iv) = 24"
    by (simp add: codec_contract_def)
  then show ?thesis by (simp add: encodeResult_def Let_def)
qed

lemma decodeResult_encodeResult:
  assumes "codec_contract c" and "length iv = 12"
  shows "decodeResult c (encodeResult c iv r) = Inr r"
  using assms(1)
  by (simp add: decodeResult_def encodeResult_take [OF assms] encodeResult_drop [OF assms]
      codec_contract_def)

lemma encodeResult_nonempty:
  assumes "codec_contract c" and "length iv = 12"
  shows "encodeResult c iv r \<noteq> []"
proof -
  from assms have "length (encodeHex c iv) = 24"
    by (simp add: codec_contract_def)
  then have "encodeHex c iv \<noteq> []" by auto
  then show ?thesis by (simp add: encodeResult_def Let_def)
qed

text \<open>
  C1. For every JSON-serializable action result \<open>r\<close>, decoding the string that encoding
  \<open>r\<close> produces gives \<open>r\<close> again. The string is the hex of the twelve-byte nonce followed
  by the base64 of the AES-GCM ciphertext, and \<open>decodeResult\<close> splits the first 24
  characters off as the nonce. The libraries are taken at their contract
  (\<open>codec_contract\<close>); the nonce is any twelve bytes.
\<close>

theorem encode_decode_round_trip:
  assumes "codec_contract c" and "length iv = 12"
  shows "decodeResult c (encodeResult c iv r) = Inr r \<and>
         take 24 (encodeResult c iv r) = encodeHex c iv \<and>
         decodeHex c (take 24 (encodeResult c iv r)) = Some iv"
  using assms
  by (simp add: decodeResult_encodeResult encodeResult_take codec_contract_def)

theorem encode_decode_round_trip_witness:
  "codec_contract result_codec \<and> length demo_nonce = 12 \<and>
   decodeResult result_codec
     (encodeResult result_codec demo_nonce
        \<lparr>data = None, error = Some \<lparr>error_status = 400, error_type = ''AstroActionError''\<rparr>\<rparr>) =
   Inr \<lparr>data = None, error = Some \<lparr>error_status = 400, error_type = ''AstroActionError''\<rparr>\<rparr>"
  using encode_decode_round_trip [OF result_codec_contract demo_nonce_length]
    result_codec_contract demo_nonce_length
  by simp

section \<open>Properties of the dispatcher\<close>

subsection \<open>Auxiliary facts\<close>

lemma truthy_Some: "truthy (Some x) \<longleftrightarrow> x \<noteq> []"
  by (simp add: truthy_def)

lemma truthy_None: "\<not> truthy None"
  by (simp add: truthy_def)

lemma locals_emit: "locals (emit ev s) = locals s"
  by (simp add: emit_def)

lemma defineProperty_absent: "defineProperty None False v = Inr (Some (frozen v))"
  by (simp add: defineProperty_def frozen_def)

lemma defineProperty_stores:
  assumes "defineProperty l0 w v = Inr l"
  shows "map_option property_value l = Some v"
  using assms by (auto simp: defineProperty_def split: option.splits if_splits)

lemma frozen_write_fails:
  "assign (Some (frozen v)) v' = Inl TypeError"
  "defineProperty (Some (frozen v)) w v' = Inl TypeError"
  by (simp_all add: assign_def defineProperty_def frozen_def)

lemma searchParams_get_set: "searchParams_get (searchParams_set ps name v) name = Some v"
  by (induction ps name v rule: searchParams_set.induct) (simp_all add: searchParams_get_def)

lemma map_of_filter_other:
  "k \<noteq> name \<Longrightarrow> map_of (filter (\<lambda>p. fst p \<noteq> name) ps) k = map_of ps k"
  by (induction ps) auto

lemma searchParams_get_set_other:
  "k \<noteq> name \<Longrightarrow> searchParams_get (searchParams_set ps name v) k = searchParams_get ps k"
  by (induction ps name v rule: searchParams_set.induct)
    (simp_all add: searchParams_get_def map_of_filter_other)

text \<open>\<^verbatim>\<open>new Response\<close> throws nothing but a \<^verbatim>\<open>RangeError\<close> or a \<^verbatim>\<open>TypeError\<close>.\<close>

lemma new_Response_error: "new_Response b st txt hs \<noteq> Inl (ActionNotFound name)"
  by (simp add: new_Response_def)

text \<open>The handlers on a request that carries no context yet.\<close>

lemma nextWithLocalsStub_absent:
  assumes "locals s = None"
  shows "nextWithLocalsStub next s =
    (await_next next (Some (frozen LocalsStub)),
     s\<lparr>locals := Some (frozen LocalsStub), trace := trace s @ [DefineProperty LocalsStub, Next]\<rparr>)"
  using assms by (simp add: nextWithLocalsStub_def defineProperty_absent run_next_def emit_def)

lemma nextWithStaticStub_absent:
  assumes "locals s = None"
  shows "nextWithStaticStub next s =
    (await_next next (Some (frozen StaticStub)),
     s\<lparr>locals := Some (frozen StaticStub), trace := trace s @ [DefineProperty StaticStub, Next]\<rparr>)"
  using assms by (simp add: nextWithStaticStub_def defineProperty_absent run_next_def emit_def)


lemma handleResult_absent:
  assumes "locals s = None"
  shows "handleResult next A r s =
    (case await_next next (Some (frozen (ResultContext A r))) of
       Inl err \<Rightarrow> Inl err
     | Inr response \<Rightarrow>
         (case error r of
            Some err \<Rightarrow>
              new_Response (response_body response) (error_status err) (error_type err)
                (headers response)
          | None \<Rightarrow> Inr response),
     s\<lparr>locals := Some (frozen (ResultContext A r)),
       trace := trace s @ [DefineProperty (ResultContext A r), Next]\<rparr>)"
  using assms
  by (simp add: handleResult_def defineProperty_absent emit_def Let_def
      split: sum.splits option.splits)

lemma handlePost_invokes:
  assumes "body (request ctx) \<noteq> None"
    and "getAction e actionName = Some action"
    and "read_formData e (request ctx) = Inr fd"
  shows "handlePost c e iv ctx next actionName s =
    (Inr (redirect e ((url ctx)\<lparr>searchParams :=
        searchParams_set (searchParams (url ctx)) ''__result''
          (encodeResult c iv (callSafely e (action fd)))\<rparr>)),
     s\<lparr>trace := trace s @
        [GetAction actionName, CallAction actionName fd,
         ConsoleLog ((url ctx)\<lparr>searchParams :=
           searchParams_set (searchParams (url ctx)) ''__result''
             (encodeResult c iv (callSafely e (action fd)))\<rparr>)]\<rparr>)"
  using assms by (cases "body (request ctx)") (simp_all add: handlePost_def emit_def Let_def)

lemma handlePost_state:
  assumes "locals s = None"
  shows "snd (handlePost c e iv ctx next actionName s) =
    (if body (request ctx) = None
     then s\<lparr>locals := Some (frozen StaticStub), trace := trace s @ [DefineProperty StaticStub, Next]\<rparr>
     else case getAction e actionName of
            None \<Rightarrow> s\<lparr>trace := trace s @ [GetAction actionName]\<rparr>
          | Some action \<Rightarrow>
              (case read_formData e (request ctx) of
                 Inl x \<Rightarrow> s\<lparr>trace := trace s @ [GetAction actionName]\<rparr>
               | Inr fd \<Rightarrow>
                   s\<lparr>trace := trace s @
                     [GetAction actionName, CallAction actionName fd,
                      ConsoleLog ((url ctx)\<lparr>searchParams :=
                        searchParams_set (searchParams (url ctx)) ''__result''
                          (encodeResult c iv (callSafely e (action fd)))\<rparr>)]\<rparr>))"
  using assms
  by (simp add: handlePost_def nextWithStaticStub_absent emit_def Let_def
      split: option.splits sum.splits)

lemma handlePostLegacy_invokes:
  assumes "locals s = None"
    and "body (request ctx) \<noteq> None"
    and "form_like e (request ctx)"
    and "parse_formData e (request ctx) = Inr fd"
    and "formData_get fd ''__action'' = Some name"
    and "name \<noteq> []"
    and "getAction e name = Some action"
  shows "handlePostLegacy e ctx next s =
    (case await_next next (Some (frozen (ResultContext name (callSafely e (action (Some fd)))))) of
       Inl err \<Rightarrow> Inl err
     | Inr response \<Rightarrow>
         (case error (callSafely e (action (Some fd))) of
            Some err \<Rightarrow>
              new_Response (response_body response) (error_status err) (error_type err)
                (headers response)
          | None \<Rightarrow> Inr response),
     s\<lparr>locals := Some (frozen (ResultContext name (callSafely e (action (Some fd))))),
       trace := trace s @
         [GetAction name, CallAction name (Some fd),
          DefineProperty (ResultContext name (callSafely e (action (Some fd)))), Next]\<rparr>)"
proof -
  have "handlePostLegacy e ctx next s =
      handleResult next name (callSafely e (action (Some fd)))
        (emit (CallAction name (Some fd)) (emit (GetAction name) s))"
    using assms(2-7)
    by (cases "body (request ctx)")
      (simp_all add: handlePostLegacy_def read_formData_def truthy_def Let_def)
  moreover have "locals (emit (CallAction name (Some fd)) (emit (GetAction name) s)) = None"
    using assms(1) by (simp add: emit_def)
  ultimately show ?thesis
    by (simp add: handleResult_absent emit_def)
qed

lemma handlePostLegacy_stub:
  assumes "locals s = None"
    and "body (request ctx) \<noteq> None"
    and "\<not> form_like e (request ctx) \<or>
         (\<exists>fd. parse_formData e (request ctx) = Inr fd \<and> \<not> truthy (formData_get fd ''__action''))"
  shows "handlePostLegacy e ctx next s =
    (await_next next (Some (frozen LocalsStub)),
     s\<lparr>locals := Some (frozen LocalsStub), trace := trace s @ [DefineProperty LocalsStub, Next]\<rparr>)"
  using assms
  by (cases "body (request ctx)")
    (auto simp: handlePostLegacy_def read_formData_def nextWithLocalsStub_absent Let_def)

lemma handlePostLegacy_state:
  assumes "locals s = None"
  shows "snd (handlePostLegacy e ctx next s) =
    (if body (request ctx) = None
     then s\<lparr>locals := Some (frozen StaticStub), trace := trace s @ [DefineProperty StaticStub, Next]\<rparr>
     else case read_formData e (request ctx) of
            Inl x \<Rightarrow> s
          | Inr None \<Rightarrow>
              s\<lparr>locals := Some (frozen LocalsStub), trace := trace s @ [DefineProperty LocalsStub, Next]\<rparr>
          | Inr (Some fd) \<Rightarrow>
              (case formData_get fd ''__action'' of
                 None \<Rightarrow>
                   s\<lparr>locals := Some (frozen LocalsStub),
                     trace := trace s @ [DefineProperty LocalsStub, Next]\<rparr>
               | Some name \<Rightarrow>
                   if name = []
                   then s\<lparr>locals := Some (frozen LocalsStub),
                          trace := trace s @ [DefineProperty LocalsStub, Next]\<rparr>
                   else (case getAction e name of
                           None \<Rightarrow> s\<lparr>trace := trace s @ [GetAction name]\<rparr>
                         | Some action \<Rightarrow>
                             s\<lparr>locals :=
                                 Some (frozen (ResultContext name (callSafely e (action (Some fd))))),
                               trace := trace s @
                                 [GetAction name, CallAction name (Some fd),
                                  DefineProperty
                                    (ResultContext name (callSafely e (action (Some fd)))),
                                  Next]\<rparr>)))"
  using assms
  by (simp add: handlePostLegacy_def nextWithStaticStub_absent nextWithLocalsStub_absent
      handleResult_absent locals_emit emit_def Let_def truthy_def
      split: option.splits sum.splits)

text \<open>The example deployment.\<close>

lemma fresh_simps: "locals fresh = None" "trace fresh = []"
  by (simp_all add: fresh_def)

lemma demo_next_frozen:
  "demo_next (Some (frozen LocalsStub)) = Inr (demo_page ''locals stub'')"
  "demo_next (Some (frozen StaticStub)) = Inr (demo_page ''static stub'')"
  "demo_next (Some (frozen (ResultContext A r))) = Inr (demo_page (''result of '' @ A))"
  by (simp_all add: demo_next_def frozen_def)

lemma demo_context_simps:
  "request_method (request (demo_context m ps b ct)) = m"
  "body (request (demo_context m ps b ct)) = b"
  "content_type (request (demo_context m ps b ct)) = ct"
  "searchParams (url (demo_context m ps b ct)) = ps"
  "url (demo_context m ps b ct) = demo_url ps"
  "searchParams (demo_url ps) = ps"
  by (simp_all add: demo_context_def demo_url_def)

lemma demo_envelope_decodes: "decodeResult result_codec demo_envelope = Inr ok_result"
  unfolding demo_envelope_def
  by (rule decodeResult_encodeResult [OF result_codec_contract demo_nonce_length])

lemma demo_envelope_nonempty: "demo_envelope \<noteq> []"
  unfolding demo_envelope_def
  by (rule encodeResult_nonempty [OF result_codec_contract demo_nonce_length])

lemma demo_read_formData_none:
  "read_formData demo_collaborators (request (demo_context m ps b None)) = Inr None"
  by (simp add: read_formData_def form_like_def demo_context_simps truthy_def)

lemma demo_getAction_increment:
  "getAction demo_collaborators ''increment'' = Some (\<lambda>fd. Inr ''1'')"
  by (simp add: demo_collaborators_def)

lemma demo_getAction_fail: "getAction demo_collaborators ''fail'' = Some (\<lambda>fd. Inl ''boom'')"
  by (simp add: demo_collaborators_def)

lemma demo_getAction_unregistered: "getAction demo_collaborators ''unregistered'' = None"
  by (simp add: demo_collaborators_def)

lemma demo_callSafely:
  "callSafely demo_collaborators (Inr ''1'') = ok_result"
  "callSafely demo_collaborators (Inl ''boom'') = failed_result"
  by (simp_all add: demo_collaborators_def ok_result_def failed_result_def)

lemma demo_result_error:
  "error failed_result = Some \<lparr>error_status = 500, error_type = ''AstroActionError''\<rparr>"
  "error ok_result = None"
  by (simp_all add: failed_result_def ok_result_def)

lemma demo_reason_phrase: "reason_phrase ''AstroActionError''"
  by (simp add: reason_phrase_def)

lemma demo_null_body_status: "\<not> null_body_status 500"
  by (simp add: null_body_status_def)

lemma demo_new_Response:
  "new_Response (Some b) 500 ''AstroActionError'' hs =
     Inr \<lparr>status = 500, statusText = ''AstroActionError'', headers = hs, response_body = Some b\<rparr>"
  by (simp add: new_Response_def demo_reason_phrase demo_null_body_status)

lemma demo_form_like:
  "form_like demo_collaborators (request (demo_context m ps b (Some ''multipart/form-data'')))"
  "\<not> form_like demo_collaborators (request (demo_context m ps b (Some ''application/json'')))"
  "\<not> form_like demo_collaborators (request (demo_context m ps b None))"
  by (simp_all add: form_like_def demo_context_simps truthy_def demo_collaborators_def)

lemma demo_parse_formData:
  "parse_formData demo_collaborators (request (demo_context m ps (Some b) ct)) = b"
  by (simp add: demo_collaborators_def demo_context_simps)

subsection \<open>Re-entry\<close>

text \<open>
  C3. For every request whose locals already contain the \<^verbatim>\<open>_actionsInternal\<close> context,
  the middleware goes straight to the downstream continuation: the outcome is what
  \<^verbatim>\<open>next()\<close> settles with, the stored property is untouched, and the only effect is
  the call of \<^verbatim>\<open>next\<close>. No second context is installed and no action is looked up or
  run, whatever the method, the URL and the body are.
\<close>

theorem reentry_short_circuit:
  assumes "locals s = Some p"
  shows "onRequest c e iv ctx next s = (await_next next (Some p), s\<lparr>trace := trace s @ [Next]\<rparr>)"
  using assms by (simp add: onRequest_def run_next_def emit_def)

theorem reentry_short_circuit_witness:
  "locals entered = Some (frozen LocalsStub) \<and>
   onRequest result_codec demo_collaborators demo_nonce
     (demo_context ''POST'' [(''__action'', ''increment'')] (Some (Inr [])) None) demo_next entered =
   (Inr (demo_page ''locals stub''), entered\<lparr>trace := [Next]\<rparr>)"
proof -
  have h: "locals entered = Some (frozen LocalsStub)"
    by (simp add: entered_def)
  show ?thesis
    using reentry_short_circuit [OF h, of result_codec demo_collaborators demo_nonce
        "demo_context ''POST'' [(''__action'', ''increment'')] (Some (Inr [])) None" demo_next] h
    by (simp add: await_next_def demo_next_frozen entered_def)
qed

subsection \<open>Result handling\<close>




text \<open>
  C5. The context that \<^verbatim>\<open>handleResult\<close> installs for the action name \<open>increment\<close>,
  asked with a reference of another identity, returns \<^verbatim>\<open>Promise.resolve(undefined)\<close>:
  a resolved promise, not \<^verbatim>\<open>undefined\<close>. Asked with the reference of the same identity
  it returns the stored result itself, and both stubs return \<^verbatim>\<open>undefined\<close> itself.
\<close>

theorem getActionResult_mismatch_promise:
  "stored (snd (handleResult demo_next ''increment'' ok_result fresh)) =
     Some (ResultContext ''increment'' ok_result) \<and>
   getActionQueryString demo_collaborators ''increment'' = ''?__action=increment'' \<and>
   getActionResult (getActionQueryString demo_collaborators)
     (ResultContext ''increment'' ok_result) ''?__action=other'' = (Resolved None, False) \<and>
   getActionResult (getActionQueryString demo_collaborators)
     (ResultContext ''increment'' ok_result) ''?__action=increment'' = (Plain (Some ok_result), False) \<and>
   getActionResult (getActionQueryString demo_collaborators) LocalsStub ''?__action=other'' =
     (Plain None, False) \<and>
   getActionResult (getActionQueryString demo_collaborators) StaticStub ''?__action=other'' =
     (Plain None, True)"
proof -
  have "stored (snd (handleResult demo_next ''increment'' ok_result fresh)) =
     Some (ResultContext ''increment'' ok_result)"
    by (simp add: handleResult_absent fresh_simps stored_def frozen_def)
  moreover have "getActionQueryString demo_collaborators ''increment'' = ''?__action=increment''"
    by (simp add: demo_collaborators_def)
  ultimately show ?thesis by simp
qed

subsection \<open>GET without a result\<close>

text \<open>
  C6, as the code has it. For every GET request that does not carry a context yet,
  whose \<^verbatim>\<open>__action\<close> query parameter has a non-empty value and whose \<^verbatim>\<open>__result\<close>
  parameter is absent or empty, the middleware throws the error that actions cannot be
  invoked with GET; the state is unchanged: nothing is installed, no action is looked up
  or run, and \<^verbatim>\<open>next\<close> is not called.
\<close>

theorem get_invocation_rejected:
  assumes "locals s = None"
    and "request_method (request ctx) = ''GET''"
    and "truthy (searchParams_get (searchParams (url ctx)) ''__action'')"
    and "\<not> truthy (searchParams_get (searchParams (url ctx)) ''__result'')"
  shows "onRequest c e iv ctx next s = (Inl GetInvocation, s)"
  using assms by (simp add: onRequest_def Let_def)

theorem get_invocation_rejected_witness:
  "locals fresh = None \<and>
   request_method (request (demo_context ''GET'' [(''__action'', ''increment'')] None None)) = ''GET'' \<and>
   truthy (searchParams_get (searchParams (url (demo_context ''GET'' [(''__action'', ''increment'')] None None))) ''__action'') \<and>
   \<not> truthy (searchParams_get (searchParams (url (demo_context ''GET'' [(''__action'', ''increment'')] None None))) ''__result'') \<and>
   onRequest result_codec demo_collaborators demo_nonce
     (demo_context ''GET'' [(''__action'', ''increment'')] None None) demo_next fresh =
   (Inl GetInvocation, fresh)"
proof -
  have h1: "locals fresh = None" by (simp add: fresh_def)
  have h2: "request_method (request (demo_context ''GET'' [(''__action'', ''increment'')] None None)) = ''GET''"
    by (simp add: demo_context_simps)
  have h3: "truthy (searchParams_get (searchParams (url (demo_context ''GET'' [(''__action'', ''increment'')] None None))) ''__action'')"
    by (simp add: demo_context_simps searchParams_get_def truthy_def)
  have h4: "\<not> truthy (searchParams_get (searchParams (url (demo_context ''GET'' [(''__action'', ''increment'')] None None))) ''__result'')"
    by (simp add: demo_context_simps searchParams_get_def truthy_def)
  show ?thesis
    using get_invocation_rejected [OF h1 h2 h3 h4, of result_codec demo_collaborators demo_nonce demo_next]
      h1 h2 h3 h4
    by simp
qed

text \<open>
  C6 as stated fails on two GET requests that carry \<^verbatim>\<open>__action\<close> and no
  \<^verbatim>\<open>__result\<close>: one that already carries a context is passed downstream, and so is one
  whose \<^verbatim>\<open>__action\<close> value is the empty string (after the locals stub is installed).
  Neither throws.
\<close>

theorem get_invocation_counterexample:
  "onRequest result_codec demo_collaborators demo_nonce
     (demo_context ''GET'' [(''__action'', ''increment'')] None None) demo_next entered =
   (Inr (demo_page ''locals stub''), entered\<lparr>trace := [Next]\<rparr>) \<and>
   onRequest result_codec demo_collaborators demo_nonce
     (demo_context ''GET'' [(''__action'', '''')] None None) demo_next fresh =
   (Inr (demo_page ''locals stub''),
    \<lparr>locals = Some (frozen LocalsStub), trace = [DefineProperty LocalsStub, Next]\<rparr>)"
  by (simp add: onRequest_def run_next_def emit_def await_next_def demo_next_frozen
      entered_def fresh_def demo_context_simps searchParams_get_def truthy_def
      nextWithLocalsStub_absent Let_def)

subsection \<open>Fresh POST\<close>

text \<open>
  C2, as the code has it. For every POST request that does not carry a context yet,
  whose \<^verbatim>\<open>__action\<close> query parameter has a non-empty value, whose body is not
  \<^verbatim>\<open>null\<close>, whose action name resolves in the registry, and whose form data, when the
  content type is form-like, parses: the middleware looks the action up, runs it once
  through \<^verbatim>\<open>callSafely\<close> on the form data (or \<^verbatim>\<open>undefined\<close>), encodes the result and
  answers with \<^verbatim>\<open>context.redirect\<close> of the request URL in which \<^verbatim>\<open>__result\<close> is set
  to the envelope and every other parameter is as it was. \<^verbatim>\<open>next\<close> is not called and
  no context is installed. The result is encoded whether or not it is an error.
\<close>

theorem fresh_post_redirects:
  assumes "locals s = None"
    and "request_method (request ctx) = ''POST''"
    and "searchParams_get (searchParams (url ctx)) ''__action'' = Some actionName"
    and "actionName \<noteq> []"
    and "body (request ctx) \<noteq> None"
    and "getAction e actionName = Some action"
    and "read_formData e (request ctx) = Inr fd"
  shows "onRequest c e iv ctx next s =
    (Inr (redirect e ((url ctx)\<lparr>searchParams :=
        searchParams_set (searchParams (url ctx)) ''__result''
          (encodeResult c iv (callSafely e (action fd)))\<rparr>)),
     s\<lparr>trace := trace s @
        [GetAction actionName, CallAction actionName fd,
         ConsoleLog ((url ctx)\<lparr>searchParams :=
           searchParams_set (searchParams (url ctx)) ''__result''
             (encodeResult c iv (callSafely e (action fd)))\<rparr>)]\<rparr>) \<and>
    searchParams_get
      (searchParams_set (searchParams (url ctx)) ''__result''
         (encodeResult c iv (callSafely e (action fd)))) ''__result'' =
      Some (encodeResult c iv (callSafely e (action fd))) \<and>
    (\<forall>k. k \<noteq> ''__result'' \<longrightarrow>
       searchParams_get
         (searchParams_set (searchParams (url ctx)) ''__result''
            (encodeResult c iv (callSafely e (action fd)))) k =
       searchParams_get (searchParams (url ctx)) k)"
proof -
  have "onRequest c e iv ctx next s = handlePost c e iv ctx next actionName s"
    using assms(1-4) by (simp add: onRequest_def Let_def truthy_def)
  then show ?thesis
    using assms(5-7)
    by (simp add: handlePost_invokes searchParams_get_set searchParams_get_set_other)
qed

theorem fresh_post_redirects_witness:
  "locals fresh = None \<and>
   request_method (request (demo_context ''POST'' [(''__action'', ''increment'')] (Some (Inr [])) None)) = ''POST'' \<and>
   searchParams_get (searchParams (url (demo_context ''POST'' [(''__action'', ''increment'')] (Some (Inr [])) None))) ''__action'' = Some ''increment'' \<and>
   ''increment'' \<noteq> [] \<and>
   body (request (demo_context ''POST'' [(''__action'', ''increment'')] (Some (Inr [])) None)) \<noteq> None \<and>
   getAction demo_collaborators ''increment'' = Some (\<lambda>fd. Inr ''1'') \<and>
   read_formData demo_collaborators (request (demo_context ''POST'' [(''__action'', ''increment'')] (Some (Inr [])) None)) = Inr None \<and>
   onRequest result_codec demo_collaborators demo_nonce
     (demo_context ''POST'' [(''__action'', ''increment'')] (Some (Inr [])) None) demo_next fresh =
   (Inr (redirect demo_collaborators
      (demo_url [(''__action'', ''increment''), (''__result'', demo_envelope)])),
    \<lparr>locals = None,
     trace = [GetAction ''increment'', CallAction ''increment'' None,
       ConsoleLog (demo_url [(''__action'', ''increment''), (''__result'', demo_envelope)])]\<rparr>)"
proof -
  let ?ctx = "demo_context ''POST'' [(''__action'', ''increment'')] (Some (Inr [])) None"
  have h1: "locals fresh = None" by (simp add: fresh_def)
  have h2: "request_method (request ?ctx) = ''POST''" by (simp add: demo_context_simps)
  have h3: "searchParams_get (searchParams (url ?ctx)) ''__action'' = Some ''increment''"
    by (simp add: demo_context_simps searchParams_get_def)
  have h4: "''increment'' \<noteq> []" by simp
  have h5: "body (request ?ctx) \<noteq> None" by (simp add: demo_context_simps)
  note h6 = demo_getAction_increment
  have h7: "read_formData demo_collaborators (request ?ctx) = Inr None"
    by (rule demo_read_formData_none)
  have cs: "callSafely demo_collaborators (Inr ''1'') = ok_result"
    by (simp add: demo_collaborators_def ok_result_def)
  show ?thesis
    using fresh_post_redirects [OF h1 h2 h3 h4 h5 h6 h7, of result_codec demo_nonce demo_next]
      h1 h2 h3 h5 h6 h7
    by (simp add: cs demo_envelope_def demo_context_simps demo_url_def fresh_def)
qed

text \<open>
  C2 as stated fails on three POST requests with \<^verbatim>\<open>__action\<close> in the URL, a body and
  a name the registry resolves: one that already carries a context is passed downstream
  and the action is not run; one whose multipart body does not parse makes the
  middleware reject before the action is run; one whose \<^verbatim>\<open>__action\<close> value is the
  empty string is handled as a legacy POST, without redirect.
\<close>

theorem fresh_post_counterexample:
  "getAction demo_collaborators ''increment'' \<noteq> None \<and>
   onRequest result_codec demo_collaborators demo_nonce
     (demo_context ''POST'' [(''__action'', ''increment'')] (Some (Inr [])) None) demo_next entered =
   (Inr (demo_page ''locals stub''), entered\<lparr>trace := [Next]\<rparr>) \<and>
   onRequest result_codec demo_collaborators demo_nonce
     (demo_context ''POST'' [(''__action'', ''increment'')] (Some (Inl ''garbage''))
        (Some ''multipart/form-data'')) demo_next fresh =
   (Inl (Thrown ''garbage''), fresh\<lparr>trace := [GetAction ''increment'']\<rparr>) \<and>
   getAction permissive_collaborators [] \<noteq> None \<and>
   onRequest result_codec permissive_collaborators demo_nonce
     (demo_context ''POST'' [(''__action'', [])] (Some (Inr [])) None) demo_next fresh =
   (Inr (demo_page ''locals stub''),
    \<lparr>locals = Some (frozen LocalsStub), trace = [DefineProperty LocalsStub, Next]\<rparr>)"
proof -
  have a: "onRequest result_codec demo_collaborators demo_nonce
     (demo_context ''POST'' [(''__action'', ''increment'')] (Some (Inr [])) None) demo_next entered =
   (Inr (demo_page ''locals stub''), entered\<lparr>trace := [Next]\<rparr>)"
    by (simp add: onRequest_def run_next_def emit_def await_next_def demo_next_frozen entered_def)
  have b: "onRequest result_codec demo_collaborators demo_nonce
     (demo_context ''POST'' [(''__action'', ''increment'')] (Some (Inl ''garbage''))
        (Some ''multipart/form-data'')) demo_next fresh =
   (Inl (Thrown ''garbage''), fresh\<lparr>trace := [GetAction ''increment'']\<rparr>)"
    by (simp add: onRequest_def Let_def demo_context_simps searchParams_get_def truthy_def
        fresh_def handlePost_def emit_def demo_getAction_increment read_formData_def
        form_like_def demo_collaborators_def)
  have c: "onRequest result_codec permissive_collaborators demo_nonce
     (demo_context ''POST'' [(''__action'', [])] (Some (Inr [])) None) demo_next fresh =
   (Inr (demo_page ''locals stub''),
    \<lparr>locals = Some (frozen LocalsStub), trace = [DefineProperty LocalsStub, Next]\<rparr>)"
    by (simp add: onRequest_def Let_def demo_context_simps searchParams_get_def truthy_def
        fresh_def handlePostLegacy_def read_formData_def form_like_def
        nextWithLocalsStub_absent await_next_def demo_next_frozen)
  show ?thesis
    using a b c by (simp add: demo_collaborators_def permissive_collaborators_def)
qed

subsection \<open>Legacy POST\<close>

text \<open>
  C7, as the code has it. For every POST request that does not carry a context yet,
  with no non-empty \<^verbatim>\<open>__action\<close> query parameter and a body that is not \<^verbatim>\<open>null\<close>:
  if the content type is form-like, the body parses and its \<^verbatim>\<open>__action\<close> field is a
  non-empty name that the registry resolves, the middleware runs the action once, stores
  the result context, calls \<^verbatim>\<open>next\<close> and answers in this request, without a redirect:
  with the downstream response when the result is not an error, and otherwise with what
  \<^verbatim>\<open>new Response\<close> makes of the downstream body and headers under the error's status
  and type (the rewritten response, or the error it throws); if the content
  type is not form-like, or the parsed form has no non-empty \<^verbatim>\<open>__action\<close> field, the
  locals stub is stored and the outcome is that of \<^verbatim>\<open>next\<close>.
\<close>

theorem legacy_post_same_cycle:
  assumes "locals s = None"
    and "request_method (request ctx) = ''POST''"
    and "\<not> truthy (searchParams_get (searchParams (url ctx)) ''__action'')"
    and "body (request ctx) \<noteq> None"
  shows "(\<forall>fd name action.
            form_like e (request ctx) \<and> parse_formData e (request ctx) = Inr fd \<and>
            formData_get fd ''__action'' = Some name \<and> name \<noteq> [] \<and>
            getAction e name = Some action \<longrightarrow>
            onRequest c e iv ctx next s =
              (case await_next next
                  (Some (frozen (ResultContext name (callSafely e (action (Some fd)))))) of
                 Inl err \<Rightarrow> Inl err
               | Inr response \<Rightarrow>
                   (case error (callSafely e (action (Some fd))) of
                      Some err \<Rightarrow>
                        new_Response (response_body response) (error_status err)
                          (error_type err) (headers response)
                    | None \<Rightarrow> Inr response),
               s\<lparr>locals := Some (frozen (ResultContext name (callSafely e (action (Some fd))))),
                 trace := trace s @
                   [GetAction name, CallAction name (Some fd),
                    DefineProperty (ResultContext name (callSafely e (action (Some fd)))),
                    Next]\<rparr>)) \<and>
         (\<not> form_like e (request ctx) \<or>
          (\<exists>fd. parse_formData e (request ctx) = Inr fd \<and>
                \<not> truthy (formData_get fd ''__action'')) \<longrightarrow>
            onRequest c e iv ctx next s =
              (await_next next (Some (frozen LocalsStub)),
               s\<lparr>locals := Some (frozen LocalsStub),
                 trace := trace s @ [DefineProperty LocalsStub, Next]\<rparr>))"
proof -
  have "onRequest c e iv ctx next s = handlePostLegacy e ctx next s"
    using assms(1-3) by (simp add: onRequest_def Let_def)
  then show ?thesis
    using assms(1,4) handlePostLegacy_invokes [of s ctx e] handlePostLegacy_stub [of s ctx e]
    by auto
qed

theorem legacy_post_same_cycle_witness:
  "locals fresh = None \<and>
   request_method (request (demo_context ''POST'' [] (Some (Inr [(''__action'', ''fail'')]))
     (Some ''multipart/form-data''))) = ''POST'' \<and>
   \<not> truthy (searchParams_get (searchParams (url (demo_context ''POST'' []
     (Some (Inr [(''__action'', ''fail'')])) (Some ''multipart/form-data'')))) ''__action'') \<and>
   body (request (demo_context ''POST'' [] (Some (Inr [(''__action'', ''fail'')]))
     (Some ''multipart/form-data''))) \<noteq> None \<and>
   form_like demo_collaborators (request (demo_context ''POST'' []
     (Some (Inr [(''__action'', ''fail'')])) (Some ''multipart/form-data''))) \<and>
   parse_formData demo_collaborators (request (demo_context ''POST'' []
     (Some (Inr [(''__action'', ''fail'')])) (Some ''multipart/form-data''))) =
     Inr [(''__action'', ''fail'')] \<and>
   formData_get [(''__action'', ''fail'')] ''__action'' = Some ''fail'' \<and>
   getAction demo_collaborators ''fail'' = Some (\<lambda>fd. Inl ''boom'') \<and>
   onRequest result_codec demo_collaborators demo_nonce
     (demo_context ''POST'' [] (Some (Inr [(''__action'', ''fail'')]))
        (Some ''multipart/form-data'')) demo_next fresh =
   (Inr \<lparr>status = 500, statusText = ''AstroActionError'',
         headers = [(''content-type'', ''text/html'')],
         response_body = Some ''result of fail''\<rparr>,
    \<lparr>locals = Some (frozen (ResultContext ''fail'' failed_result)),
     trace = [GetAction ''fail'', CallAction ''fail'' (Some [(''__action'', ''fail'')]),
       DefineProperty (ResultContext ''fail'' failed_result), Next]\<rparr>) \<and>
   body (request (demo_context ''POST'' [] (Some (Inr [])) (Some ''application/json''))) \<noteq> None \<and>
   \<not> form_like demo_collaborators
     (request (demo_context ''POST'' [] (Some (Inr [])) (Some ''application/json''))) \<and>
   onRequest result_codec demo_collaborators demo_nonce
     (demo_context ''POST'' [] (Some (Inr [])) (Some ''application/json'')) demo_next fresh =
   (Inr (demo_page ''locals stub''),
    \<lparr>locals = Some (frozen LocalsStub), trace = [DefineProperty LocalsStub, Next]\<rparr>)"
proof -
  let ?form = "demo_context ''POST'' [] (Some (Inr [(''__action'', ''fail'')]))
     (Some ''multipart/form-data'')"
  let ?json = "demo_context ''POST'' [] (Some (Inr [])) (Some ''application/json'')"
  note h1 = fresh_simps(1)
  have h2: "request_method (request ?form) = ''POST''" "request_method (request ?json) = ''POST''"
    by (simp_all add: demo_context_simps)
  have h3: "\<not> truthy (searchParams_get (searchParams (url ?form)) ''__action'')"
    "\<not> truthy (searchParams_get (searchParams (url ?json)) ''__action'')"
    by (simp_all add: demo_context_simps searchParams_get_def truthy_def)
  have h4: "body (request ?form) \<noteq> None" "body (request ?json) \<noteq> None"
    by (simp_all add: demo_context_simps)
  have f1: "form_like demo_collaborators (request ?form)" by (rule demo_form_like)
  have f2: "parse_formData demo_collaborators (request ?form) = Inr [(''__action'', ''fail'')]"
    by (rule demo_parse_formData)
  have f3: "formData_get [(''__action'', ''fail'')] ''__action'' = Some ''fail''"
    by (simp add: formData_get_def)
  have j1: "\<not> form_like demo_collaborators (request ?json)" by (rule demo_form_like)
  have a: "onRequest result_codec demo_collaborators demo_nonce ?form demo_next fresh =
     (Inr \<lparr>status = 500, statusText = ''AstroActionError'',
         headers = [(''content-type'', ''text/html'')],
         response_body = Some ''result of fail''\<rparr>,
      \<lparr>locals = Some (frozen (ResultContext ''fail'' failed_result)),
       trace = [GetAction ''fail'', CallAction ''fail'' (Some [(''__action'', ''fail'')]),
         DefineProperty (ResultContext ''fail'' failed_result), Next]\<rparr>)"
    using legacy_post_same_cycle [OF h1 h2(1) h3(1) h4(1), of demo_collaborators result_codec
        demo_nonce demo_next, THEN conjunct1, rule_format,
        of "[(''__action'', ''fail'')]" "''fail''" "\<lambda>fd. Inl ''boom''"]
      f1 f2 f3 demo_getAction_fail
    by (simp add: demo_callSafely await_next_def demo_next_frozen demo_page_def fresh_def
        demo_result_error demo_new_Response)
  have b: "onRequest result_codec demo_collaborators demo_nonce ?json demo_next fresh =
     (Inr (demo_page ''locals stub''),
      \<lparr>locals = Some (frozen LocalsStub), trace = [DefineProperty LocalsStub, Next]\<rparr>)"
    using legacy_post_same_cycle [OF h1 h2(2) h3(2) h4(2), of demo_collaborators result_codec
        demo_nonce demo_next, THEN conjunct2] j1
    by (simp add: await_next_def demo_next_frozen fresh_def)
  show ?thesis
    using h1 h2 h3 h4 f1 f2 f3 j1 demo_getAction_fail a b by simp
qed

text \<open>
  C7 as stated fails on three POST requests without \<^verbatim>\<open>__action\<close> in the URL: one that
  already carries a context is passed downstream and the action its form names is not
  run; one with a \<^verbatim>\<open>null\<close> body and a content type that is not form-like gets the
  static stub, which warns, not the locals stub; one whose form field \<^verbatim>\<open>__action\<close> is
  the empty string gets the locals stub although the registry resolves that name.
\<close>

theorem legacy_post_counterexample:
  "formData_get [(''__action'', ''increment'')] ''__action'' = Some ''increment'' \<and>
   getAction demo_collaborators ''increment'' \<noteq> None \<and>
   onRequest result_codec demo_collaborators demo_nonce
     (demo_context ''POST'' [] (Some (Inr [(''__action'', ''increment'')]))
        (Some ''multipart/form-data'')) demo_next entered =
   (Inr (demo_page ''locals stub''), entered\<lparr>trace := [Next]\<rparr>) \<and>
   \<not> form_like demo_collaborators
     (request (demo_context ''POST'' [] None (Some ''application/json''))) \<and>
   onRequest result_codec demo_collaborators demo_nonce
     (demo_context ''POST'' [] None (Some ''application/json'')) demo_next fresh =
   (Inr (demo_page ''static stub''),
    \<lparr>locals = Some (frozen StaticStub), trace = [DefineProperty StaticStub, Next]\<rparr>) \<and>
   getAction permissive_collaborators [] \<noteq> None \<and>
   onRequest result_codec permissive_collaborators demo_nonce
     (demo_context ''POST'' [] (Some (Inr [(''__action'', [])]))
        (Some ''multipart/form-data'')) demo_next fresh =
   (Inr (demo_page ''locals stub''),
    \<lparr>locals = Some (frozen LocalsStub), trace = [DefineProperty LocalsStub, Next]\<rparr>)"
proof -
  have a: "onRequest result_codec demo_collaborators demo_nonce
     (demo_context ''POST'' [] (Some (Inr [(''__action'', ''increment'')]))
        (Some ''multipart/form-data'')) demo_next entered =
   (Inr (demo_page ''locals stub''), entered\<lparr>trace := [Next]\<rparr>)"
    by (simp add: onRequest_def run_next_def emit_def await_next_def demo_next_frozen entered_def)
  have b: "onRequest result_codec demo_collaborators demo_nonce
     (demo_context ''POST'' [] None (Some ''application/json'')) demo_next fresh =
   (Inr (demo_page ''static stub''),
    \<lparr>locals = Some (frozen StaticStub), trace = [DefineProperty StaticStub, Next]\<rparr>)"
    by (simp add: onRequest_def Let_def demo_context_simps searchParams_get_def truthy_def
        handlePostLegacy_def nextWithStaticStub_absent fresh_simps await_next_def
        demo_next_frozen fresh_def)
  have c: "onRequest result_codec permissive_collaborators demo_nonce
     (demo_context ''POST'' [] (Some (Inr [(''__action'', [])]))
        (Some ''multipart/form-data'')) demo_next fresh =
   (Inr (demo_page ''locals stub''),
    \<lparr>locals = Some (frozen LocalsStub), trace = [DefineProperty LocalsStub, Next]\<rparr>)"
    by (simp add: onRequest_def Let_def demo_context_simps searchParams_get_def truthy_def
        handlePostLegacy_def read_formData_def form_like_def permissive_collaborators_def
        demo_collaborators_def formData_get_def nextWithLocalsStub_absent fresh_simps
        await_next_def demo_next_frozen fresh_def)
  show ?thesis
    using a b c demo_form_like(2) [of "''POST''" "[]" None]
    by (simp add: formData_get_def demo_collaborators_def permissive_collaborators_def)
qed

subsection \<open>POST with a null body\<close>

text \<open>
  C9. For every POST request whose body is \<^verbatim>\<open>null\<close>, on the legacy path (no
  \<^verbatim>\<open>__action\<close> in the URL) just as on the fresh-invocation path, the middleware stores
  the static stub as a non-writable property and calls \<^verbatim>\<open>next\<close>; the registry is not
  consulted and no action is run. \<^verbatim>\<open>getActionResult\<close> of the static stub returns
  \<^verbatim>\<open>undefined\<close> and warns, whatever it is asked. Both paths are the POST branches of
  \<^verbatim>\<open>onRequest\<close>, which a request enters when it carries no context yet.
\<close>

theorem static_stub_on_null_body:
  assumes "locals s = None"
    and "request_method (request ctx) = ''POST''"
    and "body (request ctx) = None"
  shows "onRequest c e iv ctx next s =
           (await_next next (Some (frozen StaticStub)),
            s\<lparr>locals := Some (frozen StaticStub),
              trace := trace s @ [DefineProperty StaticStub, Next]\<rparr>) \<and>
         getActionResult qs StaticStub f = (Plain None, True)"
  using assms
  by (simp add: onRequest_def Let_def handlePost_def handlePostLegacy_def
      nextWithStaticStub_absent)

theorem static_stub_on_null_body_witness:
  "locals fresh = None \<and>
   request_method (request (demo_context ''POST'' [(''__action'', ''increment'')] None None)) = ''POST'' \<and>
   body (request (demo_context ''POST'' [(''__action'', ''increment'')] None None)) = None \<and>
   onRequest result_codec demo_collaborators demo_nonce
     (demo_context ''POST'' [(''__action'', ''increment'')] None None) demo_next fresh =
   (Inr (demo_page ''static stub''),
    \<lparr>locals = Some (frozen StaticStub), trace = [DefineProperty StaticStub, Next]\<rparr>) \<and>
   request_method (request (demo_context ''POST'' [] None None)) = ''POST'' \<and>
   body (request (demo_context ''POST'' [] None None)) = None \<and>
   onRequest result_codec demo_collaborators demo_nonce
     (demo_context ''POST'' [] None None) demo_next fresh =
   (Inr (demo_page ''static stub''),
    \<lparr>locals = Some (frozen StaticStub), trace = [DefineProperty StaticStub, Next]\<rparr>) \<and>
   getActionResult (getActionQueryString demo_collaborators) StaticStub ''?__action=increment'' =
   (Plain None, True)"
proof -
  let ?fresh_post = "demo_context ''POST'' [(''__action'', ''increment'')] None None"
  let ?legacy = "demo_context ''POST'' [] None None"
  note h1 = fresh_simps(1)
  have h2: "request_method (request ?fresh_post) = ''POST''" "request_method (request ?legacy) = ''POST''"
    by (simp_all add: demo_context_simps)
  have h3: "body (request ?fresh_post) = None" "body (request ?legacy) = None"
    by (simp_all add: demo_context_simps)
  show ?thesis
    using static_stub_on_null_body [OF h1 h2(1) h3(1), of result_codec demo_collaborators
        demo_nonce demo_next "getActionQueryString demo_collaborators" "''?__action=increment''"]
      static_stub_on_null_body [OF h1 h2(2) h3(2), of result_codec demo_collaborators
        demo_nonce demo_next "getActionQueryString demo_collaborators" "''?__action=increment''"]
      h1 h2 h3
    by (simp add: await_next_def demo_next_frozen fresh_def)
qed

subsection \<open>GET with a result\<close>

text \<open>
  C10, as the code has it. On a GET request the middleware never calls
  \<^verbatim>\<open>getAction\<close> and never throws the action-not-found error. If the request does not
  carry a context yet, \<^verbatim>\<open>__action\<close> and \<^verbatim>\<open>__result\<close> both have non-empty values and
  the envelope decodes to \<open>r\<close>, the result context for that action name and \<open>r\<close> is
  stored, whether or not the name is registered, and \<^verbatim>\<open>next\<close> is called; the answer
  is the downstream response, passed through \<^verbatim>\<open>new Response\<close> with the status and type
  of \<open>r\<close> when \<open>r\<close> is an error.
\<close>

theorem result_delivery_skips_registry:
  assumes "request_method (request ctx) = ''GET''"
  shows "(\<forall>name. GetAction name \<notin>
            set (drop (length (trace s)) (trace (snd (onRequest c e iv ctx next s))))) \<and>
         (\<forall>name. fst (onRequest c e iv ctx next s) \<noteq> Inl (ActionNotFound name)) \<and>
         (\<forall>actionName encoded r.
            locals s = None \<and>
            searchParams_get (searchParams (url ctx)) ''__action'' = Some actionName \<and>
            actionName \<noteq> [] \<and>
            searchParams_get (searchParams (url ctx)) ''__result'' = Some encoded \<and>
            encoded \<noteq> [] \<and>
            decodeResult c encoded = Inr r \<longrightarrow>
            onRequest c e iv ctx next s =
              (case await_next next (Some (frozen (ResultContext actionName r))) of
                 Inl err \<Rightarrow> Inl err
               | Inr response \<Rightarrow>
                   (case error r of
                      Some err \<Rightarrow>
                        new_Response (response_body response) (error_status err)
                          (error_type err) (headers response)
                    | None \<Rightarrow> Inr response),
               s\<lparr>locals := Some (frozen (ResultContext actionName r)),
                 trace := trace s @ [DefineProperty (ResultContext actionName r), Next]\<rparr>))"
proof (cases "locals s")
  case (Some p)
  then show ?thesis
    by (simp add: onRequest_def run_next_def emit_def await_next_def split: sum.splits)
next
  case None
  have thrown: "\<And>l name. await_next next l \<noteq> Inl (ActionNotFound name)"
    by (simp add: await_next_def split: sum.splits)
  have dec: "\<And>t name. decodeResult c t \<noteq> Inl (ActionNotFound name)"
    by (simp add: decodeResult_def split: option.splits)
  show ?thesis
    using None assms thrown dec
    by (auto simp: onRequest_def Let_def handleResult_absent nextWithLocalsStub_absent
        new_Response_error
        truthy_def split: sum.splits option.splits)
qed

theorem result_delivery_skips_registry_witness:
  "request_method (request (demo_context ''GET''
     [(''__action'', ''unregistered''), (''__result'', demo_envelope)] None None)) = ''GET'' \<and>
   locals fresh = None \<and>
   searchParams_get (searchParams (url (demo_context ''GET''
     [(''__action'', ''unregistered''), (''__result'', demo_envelope)] None None))) ''__action'' =
     Some ''unregistered'' \<and>
   ''unregistered'' \<noteq> [] \<and>
   searchParams_get (searchParams (url (demo_context ''GET''
     [(''__action'', ''unregistered''), (''__result'', demo_envelope)] None None))) ''__result'' =
     Some demo_envelope \<and>
   demo_envelope \<noteq> [] \<and>
   decodeResult result_codec demo_envelope = Inr ok_result \<and>
   getAction demo_collaborators ''unregistered'' = None \<and>
   onRequest result_codec demo_collaborators demo_nonce
     (demo_context ''GET'' [(''__action'', ''unregistered''), (''__result'', demo_envelope)]
        None None) demo_next fresh =
   (Inr (demo_page ''result of unregistered''),
    \<lparr>locals = Some (frozen (ResultContext ''unregistered'' ok_result)),
     trace = [DefineProperty (ResultContext ''unregistered'' ok_result), Next]\<rparr>)"
proof -
  let ?ctx = "demo_context ''GET''
     [(''__action'', ''unregistered''), (''__result'', demo_envelope)] None None"
  have h0: "request_method (request ?ctx) = ''GET''" by (simp add: demo_context_simps)
  note h1 = fresh_simps(1)
  have h2: "searchParams_get (searchParams (url ?ctx)) ''__action'' = Some ''unregistered''"
    by (simp add: demo_context_simps searchParams_get_def)
  have h3: "searchParams_get (searchParams (url ?ctx)) ''__result'' = Some demo_envelope"
    by (simp add: demo_context_simps searchParams_get_def)
  have h4: "getAction demo_collaborators ''unregistered'' = None"
    by (simp add: demo_collaborators_def)
  have "onRequest result_codec demo_collaborators demo_nonce ?ctx demo_next fresh =
   (Inr (demo_page ''result of unregistered''),
    \<lparr>locals = Some (frozen (ResultContext ''unregistered'' ok_result)),
     trace = [DefineProperty (ResultContext ''unregistered'' ok_result), Next]\<rparr>)"
    using result_delivery_skips_registry [OF h0, of fresh result_codec demo_collaborators
        demo_nonce demo_next, THEN conjunct2, THEN conjunct2, rule_format,
        of "''unregistered''" demo_envelope ok_result]
      h1 h2 h3 demo_envelope_nonempty demo_envelope_decodes
    by (simp add: await_next_def demo_next_frozen demo_result_error fresh_def)
  then show ?thesis
    using h0 h1 h2 h3 h4 demo_envelope_nonempty demo_envelope_decodes by simp
qed

text \<open>
  C10 as stated fails on two GET requests with \<^verbatim>\<open>__action\<close> and a valid
  \<^verbatim>\<open>__result\<close>: on one that already carries a context nothing is installed for the
  action; on one whose \<^verbatim>\<open>__action\<close> value is the empty string the locals stub is
  installed, not a context for that name.
\<close>

theorem result_delivery_counterexample:
  "decodeResult result_codec demo_envelope = Inr ok_result \<and>
   onRequest result_codec demo_collaborators demo_nonce
     (demo_context ''GET'' [(''__action'', ''increment''), (''__result'', demo_envelope)]
        None None) demo_next entered =
   (Inr (demo_page ''locals stub''), entered\<lparr>trace := [Next]\<rparr>) \<and>
   stored (entered\<lparr>trace := [Next]\<rparr>) = Some LocalsStub \<and>
   onRequest result_codec demo_collaborators demo_nonce
     (demo_context ''GET'' [(''__action'', []), (''__result'', demo_envelope)]
        None None) demo_next fresh =
   (Inr (demo_page ''locals stub''),
    \<lparr>locals = Some (frozen LocalsStub), trace = [DefineProperty LocalsStub, Next]\<rparr>)"
proof -
  have a: "onRequest result_codec demo_collaborators demo_nonce
     (demo_context ''GET'' [(''__action'', ''increment''), (''__result'', demo_envelope)]
        None None) demo_next entered =
   (Inr (demo_page ''locals stub''), entered\<lparr>trace := [Next]\<rparr>)"
    by (simp add: onRequest_def run_next_def emit_def await_next_def demo_next_frozen entered_def)
  have b: "onRequest result_codec demo_collaborators demo_nonce
     (demo_context ''GET'' [(''__action'', []), (''__result'', demo_envelope)]
        None None) demo_next fresh =
   (Inr (demo_page ''locals stub''),
    \<lparr>locals = Some (frozen LocalsStub), trace = [DefineProperty LocalsStub, Next]\<rparr>)"
    by (simp add: onRequest_def Let_def demo_context_simps searchParams_get_def truthy_def
        nextWithLocalsStub_absent fresh_simps await_next_def demo_next_frozen fresh_def)
  have c: "stored (entered\<lparr>trace := [Next]\<rparr>) = Some LocalsStub"
    by (simp add: stored_def entered_def frozen_def)
  show ?thesis
    using a b c demo_envelope_decodes by simp
qed

subsection \<open>The context is written once\<close>

text \<open>
  C8, as the code has it. Take a run of the middleware on a request that does not carry
  a context yet, and the events it adds to the trace. If the run reaches the downstream
  continuation, it has stored exactly one object under \<^verbatim>\<open>_actionsInternal\<close>, immediately
  before the call of \<^verbatim>\<open>next\<close>, as a non-writable and non-configurable property: a
  later assignment and a later \<^verbatim>\<open>Object.defineProperty\<close> both throw. If the run ends
  without calling \<^verbatim>\<open>next\<close> (a redirect or a thrown error), it has stored nothing.
\<close>

theorem context_installed_once:
  assumes "locals s = None"
  shows "let s' = snd (onRequest c e iv ctx next s);
             evs = drop (length (trace s)) (trace s')
         in trace s' = trace s @ evs \<and>
            (Next \<in> set evs \<longrightarrow>
               (\<exists>v pre. evs = pre @ [DefineProperty v, Next] \<and> installs pre = [] \<and>
                  Next \<notin> set pre \<and> installs evs = [v] \<and> locals s' = Some (frozen v) \<and>
                  (\<forall>v'. assign (locals s') v' = Inl TypeError) \<and>
                  (\<forall>w v'. defineProperty (locals s') w v' = Inl TypeError))) \<and>
            (Next \<notin> set evs \<longrightarrow> installs evs = [] \<and> locals s' = None)"
  using assms
  by (auto simp: onRequest_def Let_def handlePost_state handlePostLegacy_state
      handleResult_absent nextWithLocalsStub_absent frozen_write_fails
      split: option.splits sum.splits)

theorem context_installed_once_witness:
  "locals fresh = None \<and>
   trace (snd (onRequest result_codec demo_collaborators demo_nonce
     (demo_context ''GET'' [] None None) demo_next fresh)) = [DefineProperty LocalsStub, Next] \<and>
   installs [DefineProperty LocalsStub, Next] = [LocalsStub] \<and>
   locals (snd (onRequest result_codec demo_collaborators demo_nonce
     (demo_context ''GET'' [] None None) demo_next fresh)) = Some (frozen LocalsStub) \<and>
   assign (locals (snd (onRequest result_codec demo_collaborators demo_nonce
     (demo_context ''GET'' [] None None) demo_next fresh))) StaticStub = Inl TypeError \<and>
   defineProperty (locals (snd (onRequest result_codec demo_collaborators demo_nonce
     (demo_context ''GET'' [] None None) demo_next fresh))) True StaticStub = Inl TypeError \<and>
   trace (snd (onRequest result_codec demo_collaborators demo_nonce
     (demo_context ''GET'' [(''__action'', ''increment'')] None None) demo_next fresh)) = [] \<and>
   locals (snd (onRequest result_codec demo_collaborators demo_nonce
     (demo_context ''GET'' [(''__action'', ''increment'')] None None) demo_next fresh)) = None"
proof -
  let ?page = "demo_context ''GET'' [] None None"
  let ?bad = "demo_context ''GET'' [(''__action'', ''increment'')] None None"
  note h = fresh_simps(1)
  have t1: "trace (snd (onRequest result_codec demo_collaborators demo_nonce ?page demo_next fresh)) =
      [DefineProperty LocalsStub, Next]"
    by (simp add: onRequest_def Let_def demo_context_simps searchParams_get_def truthy_def
        nextWithLocalsStub_absent fresh_simps)
  have t2: "trace (snd (onRequest result_codec demo_collaborators demo_nonce ?bad demo_next fresh)) = []"
    by (simp add: onRequest_def Let_def demo_context_simps searchParams_get_def truthy_def
        fresh_simps)
  show ?thesis
    using context_installed_once [OF h, of result_codec demo_collaborators demo_nonce ?page demo_next]
      context_installed_once [OF h, of result_codec demo_collaborators demo_nonce ?bad demo_next]
      h t1 t2
    by (auto simp: Let_def fresh_simps frozen_write_fails)
qed

text \<open>
  C8 as stated fails on two paths that are not the re-entry short-circuit: a fresh POST
  that ends in the redirect, and a legacy POST whose form names an action that is not
  registered. Both end with no context installed.
\<close>

theorem context_installed_once_counterexample:
  "onRequest result_codec demo_collaborators demo_nonce
     (demo_context ''POST'' [(''__action'', ''increment'')] (Some (Inr [])) None) demo_next fresh =
   (Inr (redirect demo_collaborators
      (demo_url [(''__action'', ''increment''), (''__result'', demo_envelope)])),
    \<lparr>locals = None,
     trace = [GetAction ''increment'', CallAction ''increment'' None,
       ConsoleLog (demo_url [(''__action'', ''increment''), (''__result'', demo_envelope)])]\<rparr>) \<and>
   onRequest result_codec demo_collaborators demo_nonce
     (demo_context ''POST'' [] (Some (Inr [(''__action'', ''unregistered'')]))
        (Some ''multipart/form-data'')) demo_next fresh =
   (Inl (ActionNotFound ''unregistered''),
    \<lparr>locals = None, trace = [GetAction ''unregistered'']\<rparr>)"
proof -
  have a: "onRequest result_codec demo_collaborators demo_nonce
     (demo_context ''POST'' [(''__action'', ''increment'')] (Some (Inr [])) None) demo_next fresh =
   (Inr (redirect demo_collaborators
      (demo_url [(''__action'', ''increment''), (''__result'', demo_envelope)])),
    \<lparr>locals = None,
     trace = [GetAction ''increment'', CallAction ''increment'' None,
       ConsoleLog (demo_url [(''__action'', ''increment''), (''__result'', demo_envelope)])]\<rparr>)"
    by (simp add: onRequest_def Let_def demo_context_simps searchParams_get_def truthy_def
        fresh_simps handlePost_invokes [OF _ demo_getAction_increment demo_read_formData_none]
        demo_callSafely demo_envelope_def demo_url_def fresh_def)
  have b: "onRequest result_codec demo_collaborators demo_nonce
     (demo_context ''POST'' [] (Some (Inr [(''__action'', ''unregistered'')]))
        (Some ''multipart/form-data'')) demo_next fresh =
   (Inl (ActionNotFound ''unregistered''),
    \<lparr>locals = None, trace = [GetAction ''unregistered'']\<rparr>)"
    by (simp add: onRequest_def Let_def demo_context_simps searchParams_get_def truthy_def
        fresh_simps handlePostLegacy_def read_formData_def demo_form_like demo_parse_formData
        formData_get_def emit_def demo_getAction_unregistered fresh_def)
  show ?thesis using a b by simp
qed

end
